theory Spec2Isabelle
  imports Main "HOL-Library.AList" "HOL-Library.Sublist"
begin

section \<open>Values\<close>

text \<open>
  The application (\<^verbatim>\<open>main.py\<close>) is a Taipy page in front of a DuckDB file that is
  fetched from Google Drive. Its own code is a manager class
  (\<^verbatim>\<open>DuckDBGDriveManager\<close>) and five callbacks working on the GUI state. Everything
  else is a library: JSON parsing, the Drive client, DuckDB, pandas, the file system and
  the clock. The libraries are parameters of the model (record \<open>env\<close>); their effects are
  written into an explicit \<open>world\<close>. An exception is represented by its text
  \<^verbatim>\<open>str(e)\<close>, which is all the program ever reads of it.
\<close>

text \<open>What \<^verbatim>\<open>json.loads\<close> returns. \<open>PNone\<close> is Python's \<^verbatim>\<open>None\<close>: the parse of
  \<^verbatim>\<open>null\<close> and the initial value of every state variable.\<close>

datatype float_val = Finite int int | Infinite bool | NaN

datatype pyval =
    PNone
  | PBool bool
  | PInt int
  | PFloat float_val
  | PStr string
  | PList "pyval list"
  | PDict "(string \<times> pyval) list"

text \<open>Python truth value, as tested by \<^verbatim>\<open>if state.credentials_content:\<close>. A finite float
  \<open>Finite m e\<close> stands for \<open>m * 2^e\<close>.\<close>

fun truthy :: "pyval \<Rightarrow> bool" where
  "truthy PNone = False"
| "truthy (PBool b) = b"
| "truthy (PInt i) = (i \<noteq> 0)"
| "truthy (PFloat (Finite m e)) = (m \<noteq> 0)"
| "truthy (PFloat (Infinite s)) = True"
| "truthy (PFloat NaN) = True"
| "truthy (PStr s) = (s \<noteq> [])"
| "truthy (PList xs) = (xs \<noteq> [])"
| "truthy (PDict kvs) = (kvs \<noteq> [])"

text \<open>A pandas data frame as returned by \<^verbatim>\<open>fetchdf()\<close>: column labels and rows of
  cells. Cells are limited to NULL, booleans, integers and strings.\<close>

datatype cell = CNull | CBool bool | CInt int | CStr string

record dataframe =
  columns :: "string list"
  rows :: "cell list list"

subsection \<open>Text of a value\<close>

text \<open>The single quote, which cannot be written inside a string literal.\<close>

definition sq :: string where
  "sq = [CHR 0x27]"

definition digit_char :: "nat \<Rightarrow> char" where
  "digit_char d = ''0123456789'' ! d"

fun str_nat :: "nat \<Rightarrow> string" where
  "str_nat n = (if n < 10 then [digit_char n] else str_nat (n div 10) @ [digit_char (n mod 10)])"

declare str_nat.simps [simp del]

definition str_int :: "int \<Rightarrow> string" where
  "str_int i = (if i < 0 then CHR ''-'' # str_nat (nat (- i)) else str_nat (nat i))"

text \<open>\<^verbatim>\<open>str(v)\<close> of a cell, as used by the f-string \<^verbatim>\<open>f"DESCRIBE {table_name}"\<close>.\<close>

fun py_str :: "cell \<Rightarrow> string" where
  "py_str CNull = ''None''"
| "py_str (CBool b) = (if b then ''True'' else ''False'')"
| "py_str (CInt i) = str_int i"
| "py_str (CStr s) = s"

text \<open>\<^verbatim>\<open>df[label]\<close>: the cells of the first column with that label, or KeyError. A row
  shorter than the header reads as NULL, as pandas pads it.\<close>

fun index_of :: "'a \<Rightarrow> 'a list \<Rightarrow> nat option" where
  "index_of x [] = None"
| "index_of x (y # ys) = (if x = y then Some 0 else map_option Suc (index_of x ys))"

definition cell_at :: "cell list \<Rightarrow> nat \<Rightarrow> cell" where
  "cell_at r i = (if i < length r then r ! i else CNull)"

definition getitem :: "dataframe \<Rightarrow> string \<Rightarrow> string + cell list" where
  "getitem df label =
     (case index_of label (columns df) of
        None \<Rightarrow> Inl (sq @ label @ sq)
      | Some i \<Rightarrow> Inr (map (\<lambda>r. cell_at r i) (rows df)))"

section \<open>The world outside the program\<close>

text \<open>Paths are lists of components from the root, so \<^verbatim>\<open>os.path.join(d, name)\<close> is
  \<open>d @ [name]\<close>. The file system maps a path to a directory or to a file with its
  content. The credential file holds the JSON text of a value, the database file holds
  bytes.\<close>

type_synonym path = "string list"

datatype content = Json_text pyval | Bytes string

datatype node = Dir | File content

type_synonym filesystem = "path \<rightharpoonup> node"

text \<open>Calls that leave the process: to the Drive client and to DuckDB.\<close>

datatype event =
    From_service_account_file path
  | Build_service
  | Files_list string
  | Next_chunk string nat
  | Duckdb_connect path
  | Duckdb_execute string
  | Duckdb_close

record world =
  fs :: filesystem
  stdout :: "string list"
  trace :: "event list"
  ticks :: nat

record drive_file =
  file_id :: string
  file_name :: string

text \<open>
  The libraries. \<open>'c\<close> is the state of a DuckDB connection. A result \<open>Inl e\<close> is an
  exception with text \<open>e\<close>.
  \<^item> \<open>json_loads\<close>: \<^verbatim>\<open>json.loads\<close>;
  \<^item> \<open>os_error\<close>: the text of the OSError that \<^verbatim>\<open>open\<close> raises for a path;
  \<^item> \<open>from_service_account_file\<close>, \<open>build\<close>: the two authentication calls, given the
    content of the credential file;
  \<^item> \<open>files_list\<close>: \<^verbatim>\<open>files().list(q=...).execute()\<close>, returning the value under the
    key \<^verbatim>\<open>files\<close> of the response, \<open>None\<close> when the key is missing;
  \<^item> \<open>next_chunk\<close>: the \<open>i\<close>-th call of \<^verbatim>\<open>downloader.next_chunk()\<close> for a file id:
    the bytes it writes and the \<^verbatim>\<open>done\<close> flag;
  \<^item> \<open>duckdb_connect\<close>: \<^verbatim>\<open>duckdb.connect(path, read_only=True)\<close> on the file content;
  \<^item> \<open>duckdb_execute\<close>: \<^verbatim>\<open>connection.execute(sql)\<close> (with \<^verbatim>\<open>fetchdf()\<close> where the
    program calls it) and the connection state afterwards;
  \<^item> \<open>closed_error\<close>: the text DuckDB raises on a closed connection;
  \<^item> \<open>clock\<close>: the \<open>k\<close>-th reading of \<^verbatim>\<open>datetime.now()\<close>, in microseconds;
  \<^item> \<open>format_2f\<close>: the format \<^verbatim>\<open>:.2f\<close> of a duration, given in microseconds.
\<close>

record 'c env =
  json_loads :: "string \<Rightarrow> string + pyval"
  os_error :: "path \<Rightarrow> string"
  from_service_account_file :: "content \<Rightarrow> string option"
  build :: "content \<Rightarrow> string option"
  files_list :: "content \<Rightarrow> string \<Rightarrow> string + drive_file list option"
  next_chunk :: "string \<Rightarrow> nat \<Rightarrow> string + (string \<times> bool)"
  duckdb_connect :: "string \<Rightarrow> string + 'c"
  duckdb_execute :: "'c \<Rightarrow> string \<Rightarrow> (string + dataframe) \<times> 'c"
  closed_error :: string
  clock :: "nat \<Rightarrow> int"
  format_2f :: "int \<Rightarrow> string"

definition emit :: "event \<Rightarrow> world \<Rightarrow> world" where
  "emit ev w = w\<lparr>trace := trace w @ [ev]\<rparr>"

definition print :: "string \<Rightarrow> world \<Rightarrow> world" where
  "print line w = w\<lparr>stdout := stdout w @ [line]\<rparr>"

subsection \<open>File system\<close>

text \<open>\<^verbatim>\<open>open(p, 'w')\<close> and \<^verbatim>\<open>io.FileIO(p, 'wb')\<close>: the parent must be a directory and
  \<open>p\<close> must not be one; the file is created or truncated.\<close>

definition open_w :: "'c env \<Rightarrow> filesystem \<Rightarrow> path \<Rightarrow> content \<Rightarrow> string + filesystem" where
  "open_w env f p c =
     (if p \<noteq> [] \<and> f (butlast p) = Some Dir \<and> f p \<noteq> Some Dir
      then Inr (f(p \<mapsto> File c))
      else Inl (os_error env p))"

text \<open>A write of bytes to the open database file appends them.\<close>

definition append_bytes :: "filesystem \<Rightarrow> path \<Rightarrow> string \<Rightarrow> filesystem" where
  "append_bytes f p bs =
     (case f p of
        Some (File (Bytes old)) \<Rightarrow> f(p \<mapsto> File (Bytes (old @ bs)))
      | _ \<Rightarrow> f(p \<mapsto> File (Bytes bs)))"

definition read_bytes :: "filesystem \<Rightarrow> path \<Rightarrow> string" where
  "read_bytes f p = (case f p of Some (File (Bytes bs)) \<Rightarrow> bs | _ \<Rightarrow> [])"

text \<open>\<^verbatim>\<open>tempfile.mkdtemp()\<close> creates the directory it names.\<close>

definition mkdtemp :: "path \<Rightarrow> filesystem \<Rightarrow> filesystem" where
  "mkdtemp d f = f(d \<mapsto> Dir)"

definition path_exists :: "filesystem \<Rightarrow> path \<Rightarrow> bool" where
  "path_exists f p = (f p \<noteq> None)"

text \<open>\<^verbatim>\<open>shutil.rmtree(d)\<close> removes \<open>d\<close> and every path below it; it raises on a path
  that is not a directory.\<close>

definition rmtree :: "'c env \<Rightarrow> filesystem \<Rightarrow> path \<Rightarrow> string + filesystem" where
  "rmtree env f d =
     (if f d = Some Dir then Inr (\<lambda>q. if prefix d q then None else f q)
      else Inl (os_error env d))"

text \<open>A file system is well formed when every entry lies in a directory.\<close>

definition wf_fs :: "filesystem \<Rightarrow> bool" where
  "wf_fs f = (\<forall>p. p \<noteq> [] \<and> f p \<noteq> None \<longrightarrow> f (butlast p) = Some Dir)"

section \<open>DuckDBGDriveManager\<close>

record 'c conn =
  engine_state :: 'c
  closed :: bool

type_synonym table_info_t = "(cell \<times> dataframe) list"

record 'c manager =
  temp_dir :: path
  db_path :: path
  connection :: "'c conn option"
  FOLDER_ID :: string
  DB_NAME :: string
  mgr_table_info :: "table_info_t option"

text \<open>\<^verbatim>\<open>__init__\<close>; \<open>d\<close> is the directory name that \<^verbatim>\<open>mkdtemp\<close> picks.\<close>

definition manager_init :: "path \<Rightarrow> world \<Rightarrow> 'c manager \<times> world" where
  "manager_init d w =
     (\<lparr>temp_dir = d,
       db_path = d @ [''pricecatcher.duckdb''],
       connection = None,
       FOLDER_ID = ''1L0E2fSEAYrpzHV3Jwt1nznjTUJAKQcV_'',
       DB_NAME = ''pricecatcher.duckdb'',
       mgr_table_info = None\<rparr>,
      w\<lparr>fs := mkdtemp d (fs w)\<rparr>)"

text \<open>\<^verbatim>\<open>self._connection.execute(sql)\<close>: AttributeError on \<^verbatim>\<open>None\<close>, DuckDB's error on
  a closed connection, otherwise the engine's answer. The connection state is updated
  in place.\<close>

definition conn_execute ::
  "'c env \<Rightarrow> string \<Rightarrow> 'c manager \<Rightarrow> world \<Rightarrow> (string + dataframe) \<times> 'c manager \<times> world" where
  "conn_execute env sql m w =
     (case connection m of
        None \<Rightarrow> (Inl (sq @ ''NoneType'' @ sq @ '' object has no attribute '' @ sq @ ''execute'' @ sq), m, w)
      | Some c \<Rightarrow>
          if closed c then (Inl (closed_error env), m, emit (Duckdb_execute sql) w)
          else (case duckdb_execute env (engine_state c) sql of
                  (r, s') \<Rightarrow>
                    (r, m\<lparr>connection := Some (c\<lparr>engine_state := s'\<rparr>)\<rparr>,
                     emit (Duckdb_execute sql) w)))"

text \<open>\<^verbatim>\<open>_get_table_info\<close> (lines 67-73). The loop body for the table names still
  to be described; \<open>ti\<close> is the dictionary built so far, an association list in
  insertion order, and \<open>AList.update\<close> is the assignment \<^verbatim>\<open>table_info[table_name] = columns\<close>.\<close>

fun describe_tables ::
  "'c env \<Rightarrow> cell list \<Rightarrow> table_info_t \<Rightarrow> 'c manager \<Rightarrow> world
     \<Rightarrow> (string + table_info_t) \<times> 'c manager \<times> world" where
  "describe_tables env [] ti m w = (Inr ti, m, w)"
| "describe_tables env (table_name # rest) ti m w =
     (case conn_execute env (''DESCRIBE '' @ py_str table_name) m w of
        (Inl e, m', w') \<Rightarrow> (Inl e, m', w')
      | (Inr cols, m', w') \<Rightarrow>
          describe_tables env rest (AList.update table_name cols ti) m' w')"

definition get_table_info ::
  "'c env \<Rightarrow> 'c manager \<Rightarrow> world \<Rightarrow> (string + table_info_t) \<times> 'c manager \<times> world" where
  "get_table_info env m w =
     (case conn_execute env ''SHOW TABLES'' m w of
        (Inl e, m', w') \<Rightarrow> (Inl e, m', w')
      | (Inr tables, m', w') \<Rightarrow>
          (case getitem tables ''name'' of
             Inl e \<Rightarrow> (Inl e, m', w')
           | Inr names \<Rightarrow> describe_tables env names [] m' w'))"

subsection \<open>initialize\_connection\<close>

text \<open>The download loop (lines 53-55): \<open>i\<close> calls of \<^verbatim>\<open>next_chunk\<close> have been made.
  Nothing in the program bounds the number of chunks, so the loop is a partial
  function: \<open>None\<close> is a loop that never ends.\<close>

partial_function (option) download_loop ::
  "'c env \<Rightarrow> string \<Rightarrow> path \<Rightarrow> nat \<Rightarrow> world \<Rightarrow> ((string + unit) \<times> world) option" where
  "download_loop env fid p i w =
     (case next_chunk env fid i of
        Inl e \<Rightarrow> Some (Inl e, emit (Next_chunk fid i) w)
      | Inr (bs, done) \<Rightarrow>
          (let w' = (emit (Next_chunk fid i) w)\<lparr>fs := append_bytes (fs w) p bs\<rparr>
           in if done then Some (Inr (), w') else download_loop env fid p (Suc i) w'))"

declare download_loop.simps [code]

definition set_memory_limit :: string where
  "set_memory_limit = ''SET memory_limit='' @ sq @ ''4GB'' @ sq"

definition set_threads :: string where
  "set_threads = ''SET threads TO 4''"

text \<open>The assignment of line 57: the manager holds a new, open connection.\<close>

definition connected :: "'c manager \<Rightarrow> 'c \<Rightarrow> 'c manager" where
  "connected m s = m\<lparr>connection := Some \<lparr>engine_state = s, closed = False\<rparr>\<rparr>"

text \<open>Lines 57-62: open the downloaded file, apply the two settings, take the schema
  snapshot. \<^verbatim>\<open>self._connection\<close> is assigned as soon as the file is open, so a later
  failure leaves the new connection in the manager.\<close>

definition open_database ::
  "'c env \<Rightarrow> 'c manager \<Rightarrow> world \<Rightarrow> (string + unit) \<times> 'c manager \<times> world" where
  "open_database env m w =
     (let w1 = emit (Duckdb_connect (db_path m)) w in
      case duckdb_connect env (read_bytes (fs w) (db_path m)) of
        Inl e \<Rightarrow> (Inl e, m, w1)
      | Inr s \<Rightarrow>
          (case conn_execute env set_memory_limit (connected m s) w1 of
             (Inl e, m2, w2) \<Rightarrow> (Inl e, m2, w2)
           | (Inr _, m2, w2) \<Rightarrow>
               (case conn_execute env set_threads m2 w2 of
                  (Inl e, m3, w3) \<Rightarrow> (Inl e, m3, w3)
                | (Inr _, m3, w3) \<Rightarrow>
                    (case get_table_info env m3 w3 of
                       (Inl e, m4, w4) \<Rightarrow> (Inl e, m4, w4)
                     | (Inr ti, m4, w4) \<Rightarrow>
                         (Inr (), m4\<lparr>mgr_table_info := Some ti\<rparr>, w4)))))"

text \<open>Lines 49-62: create the local file, download the chunks of the file \<open>fid\<close> into
  it, then open it.\<close>

definition fetch_database ::
  "'c env \<Rightarrow> string \<Rightarrow> 'c manager \<Rightarrow> world \<Rightarrow> ((string + unit) \<times> 'c manager \<times> world) option" where
  "fetch_database env fid m w =
     (case open_w env (fs w) (db_path m) (Bytes []) of
        Inl e \<Rightarrow> Some (Inl e, m, w)
      | Inr f \<Rightarrow>
          (case download_loop env fid (db_path m) 0 (w\<lparr>fs := f\<rparr>) of
             None \<Rightarrow> None
           | Some (Inl e, w') \<Rightarrow> Some (Inl e, m, w')
           | Some (Inr _, w') \<Rightarrow> Some (open_database env m w')))"

text \<open>The search filter of line 37.\<close>

definition drive_query :: "'c manager \<Rightarrow> string" where
  "drive_query m =
     ''name = '' @ sq @ DB_NAME m @ sq @ '' and '' @ sq @ FOLDER_ID m @ sq @ '' in parents''"

definition not_found_text :: "'c manager \<Rightarrow> string" where
  "not_found_text m = ''Could not find '' @ DB_NAME m @ '' in the specified folder''"

text \<open>The body of the \<^verbatim>\<open>try\<close> (lines 26-62). The result \<open>Inl e\<close> is the exception that
  leaves the body; manager and world are as the body left them.\<close>

text \<open>\<^verbatim>\<open>results.get('files', [])\<close> (line 43).\<close>

definition files_of :: "drive_file list option \<Rightarrow> drive_file list" where
  "files_of response = (case response of None \<Rightarrow> [] | Some fl \<Rightarrow> fl)"

definition creds_path :: "'c manager \<Rightarrow> path" where
  "creds_path m = temp_dir m @ [''creds.json'']"

definition try_body ::
  "'c env \<Rightarrow> pyval \<Rightarrow> 'c manager \<Rightarrow> world \<Rightarrow> ((string + unit) \<times> 'c manager \<times> world) option" where
  "try_body env credentials_dict m w =
     (let creds = Json_text credentials_dict
      in case open_w env (fs w) (creds_path m) creds of
           Inl e \<Rightarrow> Some (Inl e, m, w)
         | Inr f \<Rightarrow>
             (let w1 = emit (From_service_account_file (creds_path m)) (w\<lparr>fs := f\<rparr>) in
              case from_service_account_file env creds of
                Some e \<Rightarrow> Some (Inl e, m, w1)
              | None \<Rightarrow>
                  (let w2 = emit Build_service w1 in
                   case build env creds of
                     Some e \<Rightarrow> Some (Inl e, m, w2)
                   | None \<Rightarrow>
                       (let w3 = emit (Files_list (drive_query m)) w2 in
                        case files_list env creds (drive_query m) of
                          Inl e \<Rightarrow> Some (Inl e, m, w3)
                        | Inr response \<Rightarrow>
                            (case files_of response of
                               [] \<Rightarrow> Some (Inl (not_found_text m), m, w3)
                             | file # _ \<Rightarrow> fetch_database env (file_id file) m w3)))))"

text \<open>Lines 24-65: \<^verbatim>\<open>True\<close> at the end of the body, or the \<^verbatim>\<open>except\<close> clause, which
  prints and returns \<^verbatim>\<open>False\<close>.\<close>

definition initialize_connection ::
  "'c env \<Rightarrow> pyval \<Rightarrow> 'c manager \<Rightarrow> world \<Rightarrow> (bool \<times> 'c manager \<times> world) option" where
  "initialize_connection env credentials_dict m w =
     (case try_body env credentials_dict m w of
        None \<Rightarrow> None
      | Some (Inl e, m', w') \<Rightarrow> Some (False, m', print (''Connection error: '' @ e) w')
      | Some (Inr _, m', w') \<Rightarrow> Some (True, m', w'))"

subsection \<open>execute\_query and cleanup\<close>

text \<open>Lines 75-81. The \<^verbatim>\<open>raise\<close> of line 78 is inside the \<^verbatim>\<open>try\<close>, so it is wrapped
  like an error of the engine.\<close>

definition manager_execute_query ::
  "'c env \<Rightarrow> string \<Rightarrow> 'c manager \<Rightarrow> world \<Rightarrow> (string + dataframe) \<times> 'c manager \<times> world" where
  "manager_execute_query env sql m w =
     (case (if connection m = None then (Inl ''Database not connected'', m, w)
            else conn_execute env sql m w) of
        (Inl e, m', w') \<Rightarrow> (Inl (''Query execution failed: '' @ e), m', w')
      | (Inr df, m', w') \<Rightarrow> (Inr df, m', w'))"

text \<open>Lines 83-88. \<^verbatim>\<open>close()\<close> marks the connection closed; the attribute keeps the
  closed connection.\<close>

definition cleanup ::
  "'c env \<Rightarrow> 'c manager \<Rightarrow> world \<Rightarrow> (string + unit) \<times> 'c manager \<times> world" where
  "cleanup env m w =
     (let (m1, w1) =
            (case connection m of
               None \<Rightarrow> (m, w)
             | Some c \<Rightarrow> (m\<lparr>connection := Some (c\<lparr>closed := True\<rparr>)\<rparr>, emit Duckdb_close w))
      in if path_exists (fs w1) (temp_dir m1)
         then (case rmtree env (fs w1) (temp_dir m1) of
                 Inl e \<Rightarrow> (Inl e, m1, w1)
               | Inr f \<Rightarrow> (Inr (), m1, w1\<lparr>fs := f\<rparr>))
         else (Inr (), m1, w1))"

section \<open>The callbacks\<close>

text \<open>The variables bound to the page (lines 94-101), and the notifications sent with
  \<^verbatim>\<open>notify\<close>, oldest first. \<open>execution_time\<close> is kept in microseconds:
  \<^verbatim>\<open>total_seconds()\<close> is that number divided by \<open>10^6\<close>.\<close>

record app_state =
  credentials_content :: pyval
  connection_status :: bool
  query :: string
  results :: "dataframe option"
  table_info :: "table_info_t option"
  execution_time :: "int option"
  error_message :: "string option"
  notifications :: "(string \<times> string) list"

definition initial_state :: app_state where
  "initial_state =
     \<lparr>credentials_content = PNone,
      connection_status = False,
      query = ''SELECT *'' @ [CHR 0x0A] @ ''FROM your_table'' @ [CHR 0x0A] @ ''LIMIT 5;'',
      results = None,
      table_info = None,
      execution_time = None,
      error_message = None,
      notifications = []\<rparr>"

definition notify :: "app_state \<Rightarrow> string \<Rightarrow> string \<Rightarrow> app_state" where
  "notify st kind message = st\<lparr>notifications := notifications st @ [(kind, message)]\<rparr>"

text \<open>Lines 103-110. The second component is the value returned.\<close>

definition on_file_upload :: "'c env \<Rightarrow> app_state \<Rightarrow> string \<Rightarrow> app_state \<times> pyval" where
  "on_file_upload env st file =
     (case json_loads env file of
        Inr content \<Rightarrow> (st\<lparr>credentials_content := content\<rparr>, content)
      | Inl e \<Rightarrow> (notify st ''error'' (''Invalid credentials file: '' @ e), PNone))"

text \<open>Lines 112-121. \<open>m\<close> is the global \<^verbatim>\<open>db_manager\<close>.\<close>

definition connect_database ::
  "'c env \<Rightarrow> app_state \<Rightarrow> 'c manager \<Rightarrow> world \<Rightarrow> (app_state \<times> 'c manager \<times> world) option" where
  "connect_database env st m w =
     (if truthy (credentials_content st)
      then (case initialize_connection env (credentials_content st) m w of
              None \<Rightarrow> None
            | Some (ok, m', w') \<Rightarrow>
                if ok
                then Some (notify (st\<lparr>connection_status := True, table_info := mgr_table_info m'\<rparr>)
                             ''success'' ''Connected successfully!'', m', w')
                else Some (notify st ''error'' ''Connection failed'', m', w'))
      else Some (notify st ''error'' ''Please upload credentials first'', m, w))"

text \<open>\<^verbatim>\<open>datetime.now()\<close> reads the clock and counts the reading.\<close>

definition now :: "'c env \<Rightarrow> world \<Rightarrow> int \<times> world" where
  "now env w = (clock env (ticks w), w\<lparr>ticks := Suc (ticks w)\<rparr>)"

text \<open>Lines 123-137.\<close>

definition execute_query ::
  "'c env \<Rightarrow> app_state \<Rightarrow> 'c manager \<Rightarrow> world \<Rightarrow> app_state \<times> 'c manager \<times> world" where
  "execute_query env st m w =
     (if \<not> connection_status st
      then (notify st ''error'' ''Please connect to database first'', m, w)
      else (case now env w of
              (start_time, w0) \<Rightarrow>
                (case manager_execute_query env (query st) m w0 of
                   (Inr df, m', w1) \<Rightarrow>
                     (case now env w1 of
                        (end_time, w2) \<Rightarrow>
                          (let st1 = st\<lparr>results := Some df\<rparr>;
                               st2 = st1\<lparr>execution_time := Some (end_time - start_time)\<rparr>;
                               st3 = st2\<lparr>error_message := None\<rparr>
                           in (notify st3 ''success''
                                 (''Query executed in '' @ format_2f env (end_time - start_time)
                                    @ '' seconds''),
                               m', w2)))
                 | (Inl e, m', w1) \<Rightarrow>
                     (notify (st\<lparr>error_message := Some e\<rparr>) ''error'' e, m', w1))))"

subsection \<open>CSV export\<close>

text \<open>\<^verbatim>\<open>DataFrame.to_csv(index=False)\<close> with pandas' defaults: comma separator, a header
  line, one line per row, each ended by a line feed, NULL written as the empty field,
  and a field quoted only when it holds a comma, a double quote or a line break.\<close>

definition dq :: char where
  "dq = CHR 0x22"

definition csv_field :: "string \<Rightarrow> string" where
  "csv_field s =
     (if list_ex (\<lambda>c. c = CHR '','' \<or> c = dq \<or> c = CHR 0x0A \<or> c = CHR 0x0D) s
      then dq # concat (map (\<lambda>c. if c = dq then [dq, dq] else [c]) s) @ [dq]
      else s)"

fun join :: "string \<Rightarrow> string list \<Rightarrow> string" where
  "join sep [] = []"
| "join sep [x] = x"
| "join sep (x # y # ys) = x @ sep @ join sep (y # ys)"

definition csv_line :: "string list \<Rightarrow> string" where
  "csv_line row =
     (if row = [[]] then [dq, dq] else join '','' (map csv_field row)) @ [CHR 0x0A]"

fun cell_text :: "cell \<Rightarrow> string" where
  "cell_text CNull = []"
| "cell_text c = py_str c"

definition to_csv :: "dataframe \<Rightarrow> string" where
  "to_csv df =
     csv_line (columns df)
       @ concat (map (\<lambda>r. csv_line (map (\<lambda>i. cell_text (cell_at r i)) [0..<length (columns df)]))
                   (rows df))"

text \<open>Lines 139-142; \<open>None\<close> is Python's \<^verbatim>\<open>None\<close>.\<close>

definition download_results :: "app_state \<Rightarrow> string option" where
  "download_results st = (case results st of Some df \<Rightarrow> Some (to_csv df) | None \<Rightarrow> None)"

section \<open>Notions used by the properties\<close>

text \<open>The file ids of the download requests in a trace, oldest first.\<close>

fun chunk_ids :: "event list \<Rightarrow> string list" where
  "chunk_ids [] = []"
| "chunk_ids (Next_chunk fid i # evs) = fid # chunk_ids evs"
| "chunk_ids (ev # evs) = chunk_ids evs"

text \<open>The world when the answer of the remote lookup arrives: the credential file is
  written (file system \<open>f\<close>) and the three calls to the Drive client are made.\<close>

definition world_at_lookup :: "'c manager \<Rightarrow> filesystem \<Rightarrow> world \<Rightarrow> world" where
  "world_at_lookup m f w =
     emit (Files_list (drive_query m))
       (emit Build_service (emit (From_service_account_file (creds_path m)) (w\<lparr>fs := f\<rparr>)))"

text \<open>\<open>step_raises env cd m w e\<close>: running \<^verbatim>\<open>initialize_connection\<close> from manager \<open>m\<close>
  and world \<open>w\<close>, every step before some step completes and that step raises an exception
  with text \<open>e\<close>. One rule per step of the method, in the order of the source: credential
  persistence, the two authentication calls, the remote lookup and its empty answer,
  the creation of the local file, the download, the opening of the database, the two
  settings and the schema introspection.\<close>

inductive step_raises :: "'c env \<Rightarrow> pyval \<Rightarrow> 'c manager \<Rightarrow> world \<Rightarrow> string \<Rightarrow> bool"
  for env :: "'c env" and cd :: pyval and m :: "'c manager" and w :: world where
  persistence:
    "open_w env (fs w) (creds_path m) (Json_text cd) = Inl e \<Longrightarrow> step_raises env cd m w e"
| authentication:
    "open_w env (fs w) (creds_path m) (Json_text cd) = Inr f \<Longrightarrow>
     from_service_account_file env (Json_text cd) = Some e \<Longrightarrow> step_raises env cd m w e"
| service:
    "open_w env (fs w) (creds_path m) (Json_text cd) = Inr f \<Longrightarrow>
     from_service_account_file env (Json_text cd) = None \<Longrightarrow>
     build env (Json_text cd) = Some e \<Longrightarrow> step_raises env cd m w e"
| lookup:
    "open_w env (fs w) (creds_path m) (Json_text cd) = Inr f \<Longrightarrow>
     from_service_account_file env (Json_text cd) = None \<Longrightarrow>
     build env (Json_text cd) = None \<Longrightarrow>
     files_list env (Json_text cd) (drive_query m) = Inl e \<Longrightarrow> step_raises env cd m w e"
| not_found:
    "open_w env (fs w) (creds_path m) (Json_text cd) = Inr f \<Longrightarrow>
     from_service_account_file env (Json_text cd) = None \<Longrightarrow>
     build env (Json_text cd) = None \<Longrightarrow>
     files_list env (Json_text cd) (drive_query m) = Inr response \<Longrightarrow>
     files_of response = [] \<Longrightarrow> step_raises env cd m w (not_found_text m)"
| local_file:
    "open_w env (fs w) (creds_path m) (Json_text cd) = Inr f \<Longrightarrow>
     from_service_account_file env (Json_text cd) = None \<Longrightarrow>
     build env (Json_text cd) = None \<Longrightarrow>
     files_list env (Json_text cd) (drive_query m) = Inr response \<Longrightarrow>
     files_of response = file # rest \<Longrightarrow>
     open_w env f (db_path m) (Bytes []) = Inl e \<Longrightarrow> step_raises env cd m w e"
| download:
    "open_w env (fs w) (creds_path m) (Json_text cd) = Inr f \<Longrightarrow>
     from_service_account_file env (Json_text cd) = None \<Longrightarrow>
     build env (Json_text cd) = None \<Longrightarrow>
     files_list env (Json_text cd) (drive_query m) = Inr response \<Longrightarrow>
     files_of response = file # rest \<Longrightarrow>
     open_w env f (db_path m) (Bytes []) = Inr f' \<Longrightarrow>
     download_loop env (file_id file) (db_path m) 0 ((world_at_lookup m f w)\<lparr>fs := f'\<rparr>)
       = Some (Inl e, w') \<Longrightarrow> step_raises env cd m w e"
| database_open:
    "open_w env (fs w) (creds_path m) (Json_text cd) = Inr f \<Longrightarrow>
     from_service_account_file env (Json_text cd) = None \<Longrightarrow>
     build env (Json_text cd) = None \<Longrightarrow>
     files_list env (Json_text cd) (drive_query m) = Inr response \<Longrightarrow>
     files_of response = file # rest \<Longrightarrow>
     open_w env f (db_path m) (Bytes []) = Inr f' \<Longrightarrow>
     download_loop env (file_id file) (db_path m) 0 ((world_at_lookup m f w)\<lparr>fs := f'\<rparr>)
       = Some (Inr (), w') \<Longrightarrow>
     duckdb_connect env (read_bytes (fs w') (db_path m)) = Inl e \<Longrightarrow> step_raises env cd m w e"
| memory_setting:
    "open_w env (fs w) (creds_path m) (Json_text cd) = Inr f \<Longrightarrow>
     from_service_account_file env (Json_text cd) = None \<Longrightarrow>
     build env (Json_text cd) = None \<Longrightarrow>
     files_list env (Json_text cd) (drive_query m) = Inr response \<Longrightarrow>
     files_of response = file # rest \<Longrightarrow>
     open_w env f (db_path m) (Bytes []) = Inr f' \<Longrightarrow>
     download_loop env (file_id file) (db_path m) 0 ((world_at_lookup m f w)\<lparr>fs := f'\<rparr>)
       = Some (Inr (), w') \<Longrightarrow>
     duckdb_connect env (read_bytes (fs w') (db_path m)) = Inr s \<Longrightarrow>
     conn_execute env set_memory_limit (connected m s) (emit (Duckdb_connect (db_path m)) w')
       = (Inl e, m2, w2) \<Longrightarrow> step_raises env cd m w e"
| threads_setting:
    "open_w env (fs w) (creds_path m) (Json_text cd) = Inr f \<Longrightarrow>
     from_service_account_file env (Json_text cd) = None \<Longrightarrow>
     build env (Json_text cd) = None \<Longrightarrow>
     files_list env (Json_text cd) (drive_query m) = Inr response \<Longrightarrow>
     files_of response = file # rest \<Longrightarrow>
     open_w env f (db_path m) (Bytes []) = Inr f' \<Longrightarrow>
     download_loop env (file_id file) (db_path m) 0 ((world_at_lookup m f w)\<lparr>fs := f'\<rparr>)
       = Some (Inr (), w') \<Longrightarrow>
     duckdb_connect env (read_bytes (fs w') (db_path m)) = Inr s \<Longrightarrow>
     conn_execute env set_memory_limit (connected m s) (emit (Duckdb_connect (db_path m)) w')
       = (Inr d2, m2, w2) \<Longrightarrow>
     conn_execute env set_threads m2 w2 = (Inl e, m3, w3) \<Longrightarrow> step_raises env cd m w e"
| introspection:
    "open_w env (fs w) (creds_path m) (Json_text cd) = Inr f \<Longrightarrow>
     from_service_account_file env (Json_text cd) = None \<Longrightarrow>
     build env (Json_text cd) = None \<Longrightarrow>
     files_list env (Json_text cd) (drive_query m) = Inr response \<Longrightarrow>
     files_of response = file # rest \<Longrightarrow>
     open_w env f (db_path m) (Bytes []) = Inr f' \<Longrightarrow>
     download_loop env (file_id file) (db_path m) 0 ((world_at_lookup m f w)\<lparr>fs := f'\<rparr>)
       = Some (Inr (), w') \<Longrightarrow>
     duckdb_connect env (read_bytes (fs w') (db_path m)) = Inr s \<Longrightarrow>
     conn_execute env set_memory_limit (connected m s) (emit (Duckdb_connect (db_path m)) w')
       = (Inr d2, m2, w2) \<Longrightarrow>
     conn_execute env set_threads m2 w2 = (Inr d3, m3, w3) \<Longrightarrow>
     get_table_info env m3 w3 = (Inl e, m4, w4) \<Longrightarrow> step_raises env cd m w e"

text \<open>\<open>completes env cd m w m' w'\<close>: every step completes, leaving manager \<open>m'\<close> and world
  \<open>w'\<close>.\<close>

inductive completes ::
  "'c env \<Rightarrow> pyval \<Rightarrow> 'c manager \<Rightarrow> world \<Rightarrow> 'c manager \<Rightarrow> world \<Rightarrow> bool"
  for env :: "'c env" and cd :: pyval and m :: "'c manager" and w :: world where
  every_step:
    "open_w env (fs w) (creds_path m) (Json_text cd) = Inr f \<Longrightarrow>
     from_service_account_file env (Json_text cd) = None \<Longrightarrow>
     build env (Json_text cd) = None \<Longrightarrow>
     files_list env (Json_text cd) (drive_query m) = Inr response \<Longrightarrow>
     files_of response = file # rest \<Longrightarrow>
     open_w env f (db_path m) (Bytes []) = Inr f' \<Longrightarrow>
     download_loop env (file_id file) (db_path m) 0 ((world_at_lookup m f w)\<lparr>fs := f'\<rparr>)
       = Some (Inr (), w') \<Longrightarrow>
     duckdb_connect env (read_bytes (fs w') (db_path m)) = Inr s \<Longrightarrow>
     conn_execute env set_memory_limit (connected m s) (emit (Duckdb_connect (db_path m)) w')
       = (Inr d2, m2, w2) \<Longrightarrow>
     conn_execute env set_threads m2 w2 = (Inr d3, m3, w3) \<Longrightarrow>
     get_table_info env m3 w3 = (Inr ti, m4, w4) \<Longrightarrow>
     completes env cd m w (m4\<lparr>mgr_table_info := Some ti\<rparr>) w4"




section \<open>A small instance\<close>

text \<open>A concrete environment on which the definitions can be run: a Drive folder with two
  files of the right name, a download in two chunks, and a database of two tables. The
  state of the engine counts the statements it has run.\<close>

definition demo_engine :: "nat \<Rightarrow> string \<Rightarrow> (string + dataframe) \<times> nat" where
  "demo_engine n sql =
     (if sql = ''SHOW TABLES''
        then Inr \<lparr>columns = [''name''], rows = [[CStr ''items''], [CStr ''prices'']]\<rparr>
      else if sql = ''DESCRIBE items''
        then Inr \<lparr>columns = [''column_name'', ''column_type''],
                  rows = [[CStr ''item_code'', CStr ''INTEGER''], [CStr ''item'', CStr ''VARCHAR'']]\<rparr>
      else if sql = ''DESCRIBE prices''
        then Inr \<lparr>columns = [''column_name'', ''column_type''],
                  rows = [[CStr ''item_code'', CStr ''INTEGER''], [CStr ''price'', CStr ''DOUBLE'']]\<rparr>
      else if sql = set_memory_limit \<or> sql = set_threads
        then Inr \<lparr>columns = [], rows = []\<rparr>
      else if sql = ''SELECT 1 AS x''
        then Inr \<lparr>columns = [''x''], rows = [[CInt 1]]\<rparr>
      else Inl ''Parser Error: syntax error'',
      Suc n)"


definition demo_env :: "nat env" where
  "demo_env =
     \<lparr>json_loads = (\<lambda>s. if s = ''[1]'' then Inr (PList [PInt 1])
                          else Inl ''Expecting value: line 1 column 1 (char 0)''),
      os_error = (\<lambda>p. ''[Errno 2] No such file or directory''),
      from_service_account_file = (\<lambda>c. None),
      build = (\<lambda>c. None),
      files_list = (\<lambda>c q. Inr (Some [\<lparr>file_id = ''id1'', file_name = ''pricecatcher.duckdb''\<rparr>,
                                      \<lparr>file_id = ''id2'', file_name = ''pricecatcher.duckdb''\<rparr>])),
      next_chunk = (\<lambda>fid i. if i = 0 then Inr (''DUCK'', False) else Inr (''DB'', True)),
      duckdb_connect = (\<lambda>bs. if bs = ''DUCKDB'' then Inr 0 else Inl ''IO Error: not a database''),
      duckdb_execute = demo_engine,
      closed_error = ''Connection Error: Connection already closed!'',
      clock = (\<lambda>k. 1000000 * int k),
      format_2f = (\<lambda>d. ''1.00'')\<rparr>"

text \<open>The same environment with an empty Drive folder.\<close>

definition empty_folder_env :: "nat env" where
  "empty_folder_env = demo_env\<lparr>files_list := (\<lambda>c q. Inr (Some []))\<rparr>"

definition demo_world :: world where
  "demo_world =
     \<lparr>fs = [[] \<mapsto> Dir, [''tmp''] \<mapsto> Dir],
      stdout = [], trace = [], ticks = 0\<rparr>"

text \<open>The manager after \<^verbatim>\<open>__init__\<close> and the world then.\<close>

definition demo_manager :: "nat manager" where
  "demo_manager = fst (manager_init [''tmp'', ''tmpab12''] demo_world)"

definition demo_start :: world where
  "demo_start = snd (manager_init [''tmp'', ''tmpab12''] demo_world :: nat manager \<times> world)"

text \<open>A page state with an open session: connected, with the result of an earlier query.\<close>

definition demo_session :: app_state where
  "demo_session =
     initial_state\<lparr>credentials_content := PList [PInt 1],
                   connection_status := True,
                   results := Some \<lparr>columns = [''x''], rows = [[CInt 1]]\<rparr>,
                   execution_time := Some 250000\<rparr>"

text \<open>A world at the end of a session: the temporary directory holds the credential file
  and the downloaded database.\<close>

definition demo_files :: world where
  "demo_files =
     \<lparr>fs = [[] \<mapsto> Dir, [''tmp''] \<mapsto> Dir, [''tmp'', ''tmpab12''] \<mapsto> Dir,
            [''tmp'', ''tmpab12'', ''creds.json''] \<mapsto> File (Json_text (PList [PInt 1])),
            [''tmp'', ''tmpab12'', ''pricecatcher.duckdb''] \<mapsto> File (Bytes ''DUCKDB'')],
      stdout = [], trace = [], ticks = 0\<rparr>"

section \<open>Properties\<close>

subsection \<open>Auxiliary facts\<close>

lemma chunk_ids_append [simp]: "chunk_ids (xs @ ys) = chunk_ids xs @ chunk_ids ys"
  by (induction xs rule: chunk_ids.induct) auto

lemma world_at_lookup_simps [simp]:
  "fs (world_at_lookup m f w) = f"
  "stdout (world_at_lookup m f w) = stdout w"
  "ticks (world_at_lookup m f w) = ticks w"
  "chunk_ids (trace (world_at_lookup m f w)) = chunk_ids (trace w)"
  by (simp_all add: world_at_lookup_def emit_def)

lemma open_database_Inr_iff:
  "open_database env m w = (Inr u, m', w') \<longleftrightarrow>
     (\<exists>s d2 m2 w2 d3 m3 w3 ti m4.
        duckdb_connect env (read_bytes (fs w) (db_path m)) = Inr s \<and>
        conn_execute env set_memory_limit (connected m s) (emit (Duckdb_connect (db_path m)) w)
          = (Inr d2, m2, w2) \<and>
        conn_execute env set_threads m2 w2 = (Inr d3, m3, w3) \<and>
        get_table_info env m3 w3 = (Inr ti, m4, w') \<and>
        m' = m4\<lparr>mgr_table_info := Some ti\<rparr>)"
  by (auto simp: open_database_def Let_def split: sum.splits prod.splits)

lemma fetch_database_Inr_iff:
  "fetch_database env fid m w = Some (Inr u, m', w') \<longleftrightarrow>
     (\<exists>f' w1. open_w env (fs w) (db_path m) (Bytes []) = Inr f' \<and>
        download_loop env fid (db_path m) 0 (w\<lparr>fs := f'\<rparr>) = Some (Inr (), w1) \<and>
        open_database env m w1 = (Inr (), m', w'))"
  by (auto simp: fetch_database_def split: sum.splits option.splits prod.splits)

lemma try_body_Inr_iff:
  "try_body env cd m w = Some (Inr u, m', w') \<longleftrightarrow>
     (\<exists>f response file rest.
        open_w env (fs w) (creds_path m) (Json_text cd) = Inr f \<and>
        from_service_account_file env (Json_text cd) = None \<and>
        build env (Json_text cd) = None \<and>
        files_list env (Json_text cd) (drive_query m) = Inr response \<and>
        files_of response = file # rest \<and>
        fetch_database env (file_id file) m (world_at_lookup m f w) = Some (Inr (), m', w'))"
  by (auto simp: try_body_def Let_def world_at_lookup_def split: sum.splits option.splits list.splits)

lemma initialize_connection_True_iff:
  "initialize_connection env cd m w = Some (True, m', w') \<longleftrightarrow> completes env cd m w m' w'"
proof
  assume "initialize_connection env cd m w = Some (True, m', w')"
  then have "try_body env cd m w = Some (Inr (), m', w')"
    by (auto simp: initialize_connection_def split: option.splits sum.splits prod.splits)
  then show "completes env cd m w m' w'"
    unfolding try_body_Inr_iff fetch_database_Inr_iff open_database_Inr_iff
    by (auto intro: completes.intros)
next
  assume "completes env cd m w m' w'"
  then have "try_body env cd m w = Some (Inr (), m', w')"
    unfolding try_body_Inr_iff fetch_database_Inr_iff open_database_Inr_iff
    by (auto elim!: completes.cases) 
  then show "initialize_connection env cd m w = Some (True, m', w')"
    by (simp add: initialize_connection_def)
qed










text \<open>A step that raises makes the body of the \<^verbatim>\<open>try\<close> end with that exception, and
  conversely.\<close>

lemma step_raises_try_body:
  assumes "step_raises env cd m w e"
  shows "\<exists>m1 w1. try_body env cd m w = Some (Inl e, m1, w1)"
  using assms
proof (induction rule: step_raises.induct)
  case (persistence e)
  then show ?case by (simp add: try_body_def)
next
  case (authentication f e)
  then show ?case by (simp add: try_body_def)
next
  case (service f e)
  then show ?case by (simp add: try_body_def)
next
  case (lookup f e)
  then show ?case by (simp add: try_body_def)
next
  case (not_found f response)
  then show ?case by (simp add: try_body_def)
next
  case (local_file f response fl rest e)
  then show ?case by (simp add: try_body_def fetch_database_def world_at_lookup_def emit_def)
next
  case (download f response fl rest f' e w')
  then show ?case by (simp add: try_body_def fetch_database_def world_at_lookup_def emit_def)
next
  case (database_open f response fl rest f' w' e)
  then show ?case
    by (simp add: try_body_def fetch_database_def world_at_lookup_def emit_def open_database_def)
next
  case (memory_setting f response fl rest f' w' s e m2 w2)
  then show ?case
    by (simp add: try_body_def fetch_database_def world_at_lookup_def emit_def open_database_def)
next
  case (threads_setting f response fl rest f' w' s d2 m2 w2 e m3 w3)
  then show ?case
    by (simp add: try_body_def fetch_database_def world_at_lookup_def emit_def open_database_def)
next
  case (introspection f response fl rest f' w' s d2 m2 w2 d3 m3 w3 e m4 w4)
  then show ?case
    by (simp add: try_body_def fetch_database_def world_at_lookup_def emit_def open_database_def)
qed

lemma open_database_Inl:
  assumes "open_database env m w = (Inl e, m', w')"
  shows "duckdb_connect env (read_bytes (fs w) (db_path m)) = Inl e \<or>
    (\<exists>s. duckdb_connect env (read_bytes (fs w) (db_path m)) = Inr s \<and>
      ((\<exists>m2 w2. conn_execute env set_memory_limit (connected m s) (emit (Duckdb_connect (db_path m)) w)
          = (Inl e, m2, w2)) \<or>
       (\<exists>d2 m2 w2. conn_execute env set_memory_limit (connected m s) (emit (Duckdb_connect (db_path m)) w)
          = (Inr d2, m2, w2) \<and>
          ((\<exists>m3 w3. conn_execute env set_threads m2 w2 = (Inl e, m3, w3)) \<or>
           (\<exists>d3 m3 w3. conn_execute env set_threads m2 w2 = (Inr d3, m3, w3) \<and>
              (\<exists>m4 w4. get_table_info env m3 w3 = (Inl e, m4, w4)))))))"
  using assms
  by (auto simp: open_database_def Let_def split: sum.splits prod.splits)

lemma try_body_Inl:
  assumes "try_body env cd m w = Some (Inl e, m1, w1)"
  shows "step_raises env cd m w e"
proof (cases "open_w env (fs w) (creds_path m) (Json_text cd)")
  case (Inl a)
  with assms show ?thesis by (auto simp: try_body_def intro: step_raises.persistence)
next
  case f: (Inr f)
  show ?thesis
  proof (cases "from_service_account_file env (Json_text cd)")
    case (Some a)
    with assms f show ?thesis by (auto simp: try_body_def intro: step_raises.authentication)
  next
    case a: None
    show ?thesis
    proof (cases "build env (Json_text cd)")
      case (Some a)
      with assms f a show ?thesis by (auto simp: try_body_def intro: step_raises.service)
    next
      case b: None
      show ?thesis
      proof (cases "files_list env (Json_text cd) (drive_query m)")
        case (Inl a)
        with assms f a b show ?thesis by (auto simp: try_body_def intro: step_raises.lookup)
      next
        case r: (Inr response)
        show ?thesis
        proof (cases "files_of response")
          case Nil
          with assms f a b r show ?thesis
            by (auto simp: try_body_def intro: step_raises.not_found)
        next
          case l: (Cons fl rest)
          with assms f a b r
          have fd: "fetch_database env (file_id fl) m (world_at_lookup m f w) = Some (Inl e, m1, w1)"
            by (simp add: try_body_def world_at_lookup_def)
          show ?thesis
          proof (cases "open_w env f (db_path m) (Bytes [])")
            case (Inl x)
            with fd have "x = e" by (simp add: fetch_database_def)
            with Inl f a b r l show ?thesis by (auto intro: step_raises.local_file)
          next
            case g: (Inr f')
            show ?thesis
            proof (cases "download_loop env (file_id fl) (db_path m) 0 ((world_at_lookup m f w)\<lparr>fs := f'\<rparr>)")
              case None
              with fd g show ?thesis by (simp add: fetch_database_def)
            next
              case (Some y)
              obtain r' w' where y: "y = (r', w')" by (cases y)
              show ?thesis
              proof (cases r')
                case (Inl x)
                with fd g Some y have "x = e" by (simp add: fetch_database_def)
                with Inl Some y f a b r l g show ?thesis by (auto intro: step_raises.download)
              next
                case (Inr u)
                with Some y have dl: "download_loop env (file_id fl) (db_path m) 0
                    ((world_at_lookup m f w)\<lparr>fs := f'\<rparr>) = Some (Inr (), w')" by simp
                with fd g have "open_database env m w' = (Inl e, m1, w1)"
                  by (simp add: fetch_database_def)
                from open_database_Inl [OF this] f a b r l g dl show ?thesis
                  by (auto intro: step_raises.database_open step_raises.memory_setting
                        step_raises.threads_setting step_raises.introspection)
              qed
            qed
          qed
        qed
      qed
    qed
  qed
qed









text \<open>Nothing lies below a path that does not exist.\<close>

lemma wf_fs_below:
  assumes "wf_fs f" and "f d = None"
  shows "f (d @ zs) = None"
proof (induction zs rule: rev_induct)
  case Nil
  with assms show ?case by simp
next
  case (snoc z zs)
  show ?case
  proof (rule ccontr)
    assume "f (d @ zs @ [z]) \<noteq> None"
    with assms(1) have "f (butlast (d @ zs @ [z])) = Some Dir"
      unfolding wf_fs_def by blast
    then have "f (d @ zs) = Some Dir" by (simp add: butlast_append)
    with snoc show False by simp
  qed
qed

lemmas demo_defs =
  demo_env_def demo_engine_def demo_world_def demo_manager_def demo_start_def
  demo_session_def initial_state_def manager_init_def mkdtemp_def connected_def

text \<open>The two runs of the small instance.\<close>

lemma demo_loop:
  "download_loop demo_env ''id1'' p 0 w
     = Some (Inr (), (emit (Next_chunk ''id1'' 1)
          ((emit (Next_chunk ''id1'' 0) w)\<lparr>fs := append_bytes (fs w) p ''DUCK''\<rparr>))
            \<lparr>fs := append_bytes (append_bytes (fs w) p ''DUCK'') p ''DB''\<rparr>)"
proof -
  have n: "next_chunk demo_env fid 0 = Inr (''DUCK'', False)"
    "next_chunk demo_env fid (Suc 0) = Inr (''DB'', True)" for fid
    by (simp_all add: demo_env_def)
  show ?thesis
    by (simp add: download_loop.simps [of demo_env _ _ 0]
          download_loop.simps [of demo_env _ _ "Suc 0"] n Let_def)
qed

lemma demo_env_simps:
  "from_service_account_file demo_env c = None"
  "build demo_env c = None"
  "files_list demo_env c q = Inr (Some [\<lparr>file_id = ''id1'', file_name = ''pricecatcher.duckdb''\<rparr>,
                                      \<lparr>file_id = ''id2'', file_name = ''pricecatcher.duckdb''\<rparr>])"
  "duckdb_connect demo_env bs = (if bs = ''DUCKDB'' then Inr 0 else Inl ''IO Error: not a database'')"
  "duckdb_execute demo_env = demo_engine"
  by (simp_all add: demo_env_def)

lemma demo_run:
  "\<exists>w'. initialize_connection demo_env (PList [PInt 1]) demo_manager demo_start
           = Some (True,
                   demo_manager\<lparr>connection := Some \<lparr>engine_state = 5, closed = False\<rparr>,
                     mgr_table_info := Some
                       [(CStr ''items'',
                         \<lparr>columns = [''column_name'', ''column_type''],
                          rows = [[CStr ''item_code'', CStr ''INTEGER''], [CStr ''item'', CStr ''VARCHAR'']]\<rparr>),
                        (CStr ''prices'',
                         \<lparr>columns = [''column_name'', ''column_type''],
                          rows = [[CStr ''item_code'', CStr ''INTEGER''], [CStr ''price'', CStr ''DOUBLE'']]\<rparr>)]\<rparr>,
                   w') \<and> stdout w' = [] \<and> chunk_ids (trace w') = [''id1'', ''id1'']"
  by (simp add: initialize_connection_def try_body_def fetch_database_def open_database_def
        get_table_info_def conn_execute_def getitem_def
        files_of_def creds_path_def open_w_def read_bytes_def append_bytes_def drive_query_def
        demo_loop demo_env_simps emit_def demo_engine_def demo_world_def demo_manager_def
        demo_start_def manager_init_def mkdtemp_def connected_def cell_at_def
        set_memory_limit_def set_threads_def sq_def Let_def)

lemma empty_run:
  "initialize_connection empty_folder_env (PList [PInt 1]) demo_manager demo_start
     = Some (False, demo_manager,
         print ''Connection error: Could not find pricecatcher.duckdb in the specified folder''
           (world_at_lookup demo_manager
              ((fs demo_start)(creds_path demo_manager \<mapsto> File (Json_text (PList [PInt 1]))))
              demo_start))"
  by (simp add: initialize_connection_def try_body_def empty_folder_env_def not_found_text_def
        files_of_def creds_path_def open_w_def drive_query_def world_at_lookup_def
        emit_def demo_defs Let_def)


subsection \<open>The callbacks\<close>

text \<open>
  Claim C7. For the query result with columns \<open>a\<close>, \<open>b\<close> and rows \<open>(1, "x")\<close>, \<open>(2, "y")\<close>,
  \<^verbatim>\<open>download_results\<close> returns exactly the header line \<open>a,b\<close> followed by the lines \<open>1,x\<close>
  and \<open>2,y\<close>, with no index column. The text is what pandas writes with its defaults,
  each line ended by a line feed.
\<close>

theorem download_results_csv:
  "download_results
     (st\<lparr>results := Some \<lparr>columns = [''a'', ''b''],
                          rows = [[CInt 1, CStr ''x''], [CInt 2, CStr ''y'']]\<rparr>\<rparr>)
   = Some (''a,b'' @ [CHR 0x0A] @ ''1,x'' @ [CHR 0x0A] @ ''2,y'' @ [CHR 0x0A])"
  by (simp add: download_results_def to_csv_def csv_line_def csv_field_def cell_at_def
        str_int_def str_nat.simps digit_char_def dq_def upt_rec)

text \<open>
  Claim C3. In a state with \<open>connection_status\<close> false, \<^verbatim>\<open>execute_query\<close> only sends the
  error notification "Please connect to database first": the manager and the world,
  with its trace of calls to DuckDB, are returned as they were, so the query method of
  the manager is not called.
\<close>

theorem execute_query_not_connected:
  assumes "\<not> connection_status st"
  shows "execute_query env st m w
           = (notify st ''error'' ''Please connect to database first'', m, w)"
  using assms by (simp add: execute_query_def)

theorem execute_query_not_connected_witness:
  "\<not> connection_status initial_state \<and>
   execute_query demo_env initial_state (connected demo_manager 0) demo_start
     = (notify initial_state ''error'' ''Please connect to database first'',
        connected demo_manager 0, demo_start)"
proof -
  have h: "\<not> connection_status initial_state" by (simp add: initial_state_def)
  from execute_query_not_connected [OF h] h show ?thesis by simp
qed

text \<open>
  Claim C4. In a state where no credentials are stored, \<^verbatim>\<open>connect_database\<close> only sends
  the error notification "Please upload credentials first": the manager and the world
  are returned as they were, so no call to the Drive client is made.
\<close>

theorem connect_without_credentials:
  assumes "credentials_content st = PNone"
  shows "connect_database env st m w
           = Some (notify st ''error'' ''Please upload credentials first'', m, w)"
  using assms by (simp add: connect_database_def)

theorem connect_without_credentials_witness:
  "credentials_content initial_state = PNone \<and>
   connect_database demo_env initial_state demo_manager demo_start
     = Some (notify initial_state ''error'' ''Please upload credentials first'',
             demo_manager, demo_start)"
proof -
  have h: "credentials_content initial_state = PNone" by (simp add: initial_state_def)
  from connect_without_credentials [OF h] h show ?thesis by simp
qed

text \<open>
  Claim C2, as stated: after an upload that is not valid JSON the stored credentials are
  unset. That fails in a session that holds credentials from an earlier upload: they
  stay stored.
\<close>

theorem on_file_upload_invalid_counterexample:
  "json_loads demo_env ''{oops'' = Inl ''Expecting value: line 1 column 1 (char 0)'' \<and>
   credentials_content (fst (on_file_upload demo_env demo_session ''{oops'')) \<noteq> PNone"
  by (simp add: on_file_upload_def demo_defs notify_def)

text \<open>
  Claim C2, amended. For an input that parses as JSON, \<^verbatim>\<open>on_file_upload\<close> stores exactly
  the parsed value as the credentials and returns it. For an input that does not parse,
  it sends one error notification, returns \<^verbatim>\<open>None\<close> and leaves the stored credentials
  as they were (unset when none were stored). It raises in neither case.
\<close>

theorem on_file_upload_result:
  "(json_loads env file = Inr v \<longrightarrow>
      on_file_upload env st file = (st\<lparr>credentials_content := v\<rparr>, v)) \<and>
   (json_loads env file = Inl e \<longrightarrow>
      on_file_upload env st file
        = (notify st ''error'' (''Invalid credentials file: '' @ e), PNone) \<and>
      credentials_content (fst (on_file_upload env st file)) = credentials_content st)"
  by (simp add: on_file_upload_def notify_def)

theorem on_file_upload_result_witness:
  "json_loads demo_env ''[1]'' = Inr (PList [PInt 1]) \<and>
   on_file_upload demo_env initial_state ''[1]''
     = (initial_state\<lparr>credentials_content := PList [PInt 1]\<rparr>, PList [PInt 1]) \<and>
   json_loads demo_env ''{oops'' = Inl ''Expecting value: line 1 column 1 (char 0)'' \<and>
   on_file_upload demo_env initial_state ''{oops''
     = (notify initial_state ''error''
          ''Invalid credentials file: Expecting value: line 1 column 1 (char 0)'', PNone) \<and>
   credentials_content (fst (on_file_upload demo_env initial_state ''{oops'')) = PNone"
proof -
  have a: "json_loads demo_env ''[1]'' = Inr (PList [PInt 1])"
    by (simp add: demo_env_def)
  have b: "json_loads demo_env ''{oops'' = Inl ''Expecting value: line 1 column 1 (char 0)''"
    by (simp add: demo_env_def)
  have c: "credentials_content initial_state = PNone" by (simp add: initial_state_def)
  from on_file_upload_result [of demo_env "''[1]''" "PList [PInt 1]" initial_state] a
    on_file_upload_result [of demo_env "''{oops''" _ initial_state
      "''Expecting value: line 1 column 1 (char 0)''"] b c
  show ?thesis by (simp add: notify_def)
qed

text \<open>
  Claim C10. When the query of an open page succeeds, \<open>error_message\<close> is reset to
  \<^verbatim>\<open>None\<close>, whatever an earlier failure left there. When it fails, \<open>error_message\<close> is
  the failure text and \<open>execution_time\<close> keeps the value of the previous run.
\<close>

theorem execute_query_error_message:
  assumes "connection_status st"
  shows "case manager_execute_query env (query st) m (snd (now env w)) of
           (Inr df, m', w') \<Rightarrow>
              error_message (fst (execute_query env st m w)) = None
         | (Inl e, m', w') \<Rightarrow>
              error_message (fst (execute_query env st m w)) = Some e \<and>
              execution_time (fst (execute_query env st m w)) = execution_time st"
  using assms
  by (simp add: execute_query_def now_def notify_def Let_def split: prod.splits sum.splits)

lemmas run_defs =
  execute_query_def manager_execute_query_def conn_execute_def now_def notify_def emit_def
  set_memory_limit_def set_threads_def sq_def

theorem execute_query_error_message_witness:
  "connection_status demo_session \<and>
   error_message
     (fst (execute_query demo_env
             (demo_session\<lparr>query := ''SELECT 1 AS x'', error_message := Some ''old error''\<rparr>)
             (connected demo_manager 0) demo_start)) = None \<and>
   error_message
     (fst (execute_query demo_env (demo_session\<lparr>query := ''SELEC * FROM t''\<rparr>)
             (connected demo_manager 0) demo_start))
     = Some ''Query execution failed: Parser Error: syntax error'' \<and>
   execution_time
     (fst (execute_query demo_env (demo_session\<lparr>query := ''SELEC * FROM t''\<rparr>)
             (connected demo_manager 0) demo_start)) = Some 250000"
proof -
  have h: "connection_status demo_session" by (simp add: demo_session_def)
  have h1: "connection_status
      (demo_session\<lparr>query := ''SELECT 1 AS x'', error_message := Some ''old error''\<rparr>)"
    by (simp add: demo_session_def)
  have h2: "connection_status (demo_session\<lparr>query := ''SELEC * FROM t''\<rparr>)"
    by (simp add: demo_session_def)
  have ok: "manager_execute_query demo_env ''SELECT 1 AS x'' (connected demo_manager 0)
              (snd (now demo_env demo_start))
            = (Inr \<lparr>columns = [''x''], rows = [[CInt 1]]\<rparr>, connected demo_manager 1,
               emit (Duckdb_execute ''SELECT 1 AS x'') (snd (now demo_env demo_start)))"
    by (simp add: run_defs demo_defs)
  have bad: "manager_execute_query demo_env ''SELEC * FROM t'' (connected demo_manager 0)
              (snd (now demo_env demo_start))
            = (Inl ''Query execution failed: Parser Error: syntax error'',
               connected demo_manager 1,
               emit (Duckdb_execute ''SELEC * FROM t'') (snd (now demo_env demo_start)))"
    by (simp add: run_defs demo_defs)
  have t: "execution_time (demo_session\<lparr>query := ''SELEC * FROM t''\<rparr>) = Some 250000"
    by (simp add: demo_session_def)
  from execute_query_error_message [OF h1, of demo_env "connected demo_manager 0" demo_start]
    execute_query_error_message [OF h2, of demo_env "connected demo_manager 0" demo_start]
    ok bad h t
  show ?thesis by simp
qed

text \<open>
  Claim C1. In an open session, when the engine rejects the SQL text with an error of
  text \<open>e\<close>, that text reaches the user unchanged: the message shown, in \<open>error_message\<close>
  and in the error notification, is the generic failure message of line 81 followed by
  \<open>e\<close> verbatim, so \<open>e\<close> is its suffix. The stored result \<open>results\<close> is left as it was.
\<close>

theorem query_error_surfaced:
  assumes "connection_status st"
    and "connection m = Some c" and "\<not> closed c"
    and "duckdb_execute env (engine_state c) (query st) = (Inl e, s')"
  shows "execute_query env st m w
           = (notify (st\<lparr>error_message := Some (''Query execution failed: '' @ e)\<rparr>)
                ''error'' (''Query execution failed: '' @ e),
              m\<lparr>connection := Some (c\<lparr>engine_state := s'\<rparr>)\<rparr>,
              emit (Duckdb_execute (query st)) (snd (now env w))) \<and>
         results (fst (execute_query env st m w)) = results st \<and>
         (\<exists>msg. error_message (fst (execute_query env st m w)) = Some msg \<and>
                last (notifications (fst (execute_query env st m w))) = (''error'', msg) \<and>
                suffix e msg)"
  using assms
  by (simp add: execute_query_def manager_execute_query_def conn_execute_def now_def
        notify_def suffix_def)

theorem query_error_surfaced_witness:
  "connection_status (demo_session\<lparr>query := ''SELEC * FROM t''\<rparr>) \<and>
   connection (connected demo_manager 0) = Some \<lparr>engine_state = 0, closed = False\<rparr> \<and>
   duckdb_execute demo_env 0 ''SELEC * FROM t'' = (Inl ''Parser Error: syntax error'', 1) \<and>
   error_message
     (fst (execute_query demo_env (demo_session\<lparr>query := ''SELEC * FROM t''\<rparr>)
             (connected demo_manager 0) demo_start))
     = Some ''Query execution failed: Parser Error: syntax error'' \<and>
   results
     (fst (execute_query demo_env (demo_session\<lparr>query := ''SELEC * FROM t''\<rparr>)
             (connected demo_manager 0) demo_start))
     = Some \<lparr>columns = [''x''], rows = [[CInt 1]]\<rparr>"
proof -
  let ?st = "demo_session\<lparr>query := ''SELEC * FROM t''\<rparr>"
  let ?c = "\<lparr>engine_state = 0 :: nat, closed = False\<rparr>"
  have h1: "connection_status ?st" by (simp add: demo_session_def)
  have h2: "connection (connected demo_manager 0) = Some ?c" by (simp add: connected_def)
  have h3: "\<not> closed ?c" by simp
  have h4: "duckdb_execute demo_env (engine_state ?c) (query ?st)
              = (Inl ''Parser Error: syntax error'', 1)"
    by (simp add: demo_defs run_defs)
  have r: "results ?st = Some \<lparr>columns = [''x''], rows = [[CInt 1]]\<rparr>"
    by (simp add: demo_session_def)
  from query_error_surfaced [OF h1 h2 h3 h4, of demo_start] h1 h2 h4 r
  show ?thesis by (simp add: notify_def)
qed

subsection \<open>initialize\_connection\<close>

text \<open>
  Claim C6. When a step of \<^verbatim>\<open>initialize_connection\<close> raises an exception with text \<open>e\<close>
  (credential persistence, authentication, remote lookup, download, database open,
  settings, schema introspection), the method returns \<^verbatim>\<open>False\<close> and the line
  \<open>Connection error: e\<close> is printed last. It returns \<^verbatim>\<open>False\<close> only in that way, and it
  returns \<^verbatim>\<open>True\<close> exactly when every step completes.
\<close>

theorem initialize_connection_catches:
  "(step_raises env cd m w e \<longrightarrow>
      (\<exists>m1 w1. initialize_connection env cd m w
                  = Some (False, m1, print (''Connection error: '' @ e) w1))) \<and>
   (initialize_connection env cd m w = Some (False, m', w') \<longrightarrow>
      (\<exists>e w1. step_raises env cd m w e \<and> w' = print (''Connection error: '' @ e) w1)) \<and>
   (initialize_connection env cd m w = Some (True, m', w') \<longleftrightarrow> completes env cd m w m' w')"
proof (intro conjI impI)
  assume "step_raises env cd m w e"
  from step_raises_try_body [OF this]
  show "\<exists>m1 w1. initialize_connection env cd m w
                  = Some (False, m1, print (''Connection error: '' @ e) w1)"
    by (auto simp: initialize_connection_def)
next
  assume "initialize_connection env cd m w = Some (False, m', w')"
  then obtain e w1 where "try_body env cd m w = Some (Inl e, m', w1)"
    and "w' = print (''Connection error: '' @ e) w1"
    by (auto simp: initialize_connection_def split: option.splits sum.splits prod.splits)
  with try_body_Inl show "\<exists>e w1. step_raises env cd m w e \<and> w' = print (''Connection error: '' @ e) w1"
    by blast
next
  show "initialize_connection env cd m w = Some (True, m', w') \<longleftrightarrow> completes env cd m w m' w'"
    by (rule initialize_connection_True_iff)
qed

theorem initialize_connection_catches_witness:
  "step_raises empty_folder_env (PList [PInt 1]) demo_manager demo_start
     ''Could not find pricecatcher.duckdb in the specified folder'' \<and>
   (\<exists>m1 w1. initialize_connection empty_folder_env (PList [PInt 1]) demo_manager demo_start
      = Some (False, m1,
          print ''Connection error: Could not find pricecatcher.duckdb in the specified folder'' w1)) \<and>
   (\<exists>m' w'. initialize_connection demo_env (PList [PInt 1]) demo_manager demo_start
                = Some (True, m', w') \<and>
            completes demo_env (PList [PInt 1]) demo_manager demo_start m' w')"
proof -
  let ?e = "''Could not find pricecatcher.duckdb in the specified folder''"
  obtain m0 w0 where
    r0: "initialize_connection empty_folder_env (PList [PInt 1]) demo_manager demo_start
           = Some (False, m0, w0)"
    using empty_run by blast
  obtain m' w' where
    r1: "initialize_connection demo_env (PList [PInt 1]) demo_manager demo_start
           = Some (True, m', w')"
    using demo_run by blast
  note a = initialize_connection_catches
             [of empty_folder_env "PList [PInt 1]" demo_manager demo_start ?e m0 w0]
  note b = initialize_connection_catches
             [of demo_env "PList [PInt 1]" demo_manager demo_start ?e m' w']
  have t: "not_found_text demo_manager = ?e"
    by (simp add: not_found_text_def demo_defs)
  have "step_raises empty_folder_env (PList [PInt 1]) demo_manager demo_start
          (not_found_text demo_manager)"
    by (rule step_raises.not_found [where response = "Some []" and
          f = "(fs demo_start)(creds_path demo_manager \<mapsto> File (Json_text (PList [PInt 1])))"])
       (simp_all add: empty_folder_env_def demo_defs open_w_def creds_path_def files_of_def)
  with t have sr: "step_raises empty_folder_env (PList [PInt 1]) demo_manager demo_start ?e"
    by simp
  with a have
    "\<exists>m1 w1. initialize_connection empty_folder_env (PList [PInt 1]) demo_manager demo_start
      = Some (False, m1, print (''Connection error: '' @ ?e) w1)"
    by blast
  moreover note sr
  moreover from b r1 have "completes demo_env (PList [PInt 1]) demo_manager demo_start m' w'"
    by blast
  ultimately show ?thesis using r1 by auto
qed




subsection \<open>The schema snapshot\<close>



subsection \<open>cleanup\<close>

text \<open>
  Claim C9. For every manager, connected or not, \<^verbatim>\<open>cleanup\<close> returns without raising,
  closes the connection if there is one, and afterwards no path at or below the temporary
  directory exists: neither the directory, nor the credential file, nor the downloaded
  database file. Everything outside the temporary directory is left as it was. The file
  system is well formed and the temporary directory has not been replaced by a regular
  file (\<^verbatim>\<open>shutil.rmtree\<close> raises on one).
\<close>

theorem cleanup_leaves_nothing:
  assumes "wf_fs (fs w)" and "\<forall>c. fs w (temp_dir m) \<noteq> Some (File c)"
  shows "\<exists>m' w'. cleanup env m w = (Inr (), m', w') \<and>
           (\<forall>q. prefix (temp_dir m) q \<longrightarrow> fs w' q = None) \<and>
           fs w' (creds_path m) = None \<and>
           (db_path m = temp_dir m @ [''pricecatcher.duckdb''] \<longrightarrow> fs w' (db_path m) = None) \<and>
           (\<forall>q. \<not> prefix (temp_dir m) q \<longrightarrow> fs w' q = fs w q) \<and>
           connection m' = map_option (\<lambda>c. c\<lparr>closed := True\<rparr>) (connection m) \<and>
           trace w' = trace w @ (if connection m = None then [] else [Duckdb_close])"
proof -
  define m1 where "m1 = (case connection m of None \<Rightarrow> m
                         | Some c \<Rightarrow> m\<lparr>connection := Some (c\<lparr>closed := True\<rparr>)\<rparr>)"
  define w1 where "w1 = (case connection m of None \<Rightarrow> w | Some c \<Rightarrow> emit Duckdb_close w)"
  have m1: "temp_dir m1 = temp_dir m"
    "connection m1 = map_option (\<lambda>c. c\<lparr>closed := True\<rparr>) (connection m)"
    by (auto simp: m1_def split: option.splits)
  have w1: "fs w1 = fs w"
    "trace w1 = trace w @ (if connection m = None then [] else [Duckdb_close])"
    by (auto simp: w1_def emit_def split: option.splits)
  have c: "cleanup env m w =
      (if path_exists (fs w1) (temp_dir m1)
       then (case rmtree env (fs w1) (temp_dir m1) of
               Inl e \<Rightarrow> (Inl e, m1, w1)
             | Inr f \<Rightarrow> (Inr (), m1, w1\<lparr>fs := f\<rparr>))
       else (Inr (), m1, w1))"
    unfolding m1_def w1_def
    by (cases "connection m") (simp_all add: cleanup_def split: sum.splits)
  have pc: "prefix (temp_dir m) (creds_path m)" by (simp add: creds_path_def)
  show ?thesis
  proof (cases "fs w (temp_dir m)")
    case None
    have gone: "fs w q = None" if "prefix (temp_dir m) q" for q
      using that wf_fs_below [OF assms(1) None] by (auto simp: prefix_def)
    from None have "cleanup env m w = (Inr (), m1, w1)"
      by (simp add: c m1 w1 path_exists_def)
    with gone pc m1 w1 show ?thesis by auto
  next
    case (Some n)
    with assms(2) have d: "fs w (temp_dir m) = Some Dir" by (cases n) auto
    then have "cleanup env m w
        = (Inr (), m1, w1\<lparr>fs := (\<lambda>q. if prefix (temp_dir m) q then None else fs w q)\<rparr>)"
      by (simp add: c m1 w1 path_exists_def rmtree_def)
    with pc m1 w1 show ?thesis by auto
  qed
qed

theorem cleanup_leaves_nothing_witness:
  "wf_fs (fs demo_files) \<and>
   (\<forall>c. fs demo_files (temp_dir (connected demo_manager 3)) \<noteq> Some (File c)) \<and>
   (\<exists>m' w'. cleanup demo_env (connected demo_manager 3) demo_files = (Inr (), m', w') \<and>
      fs w' [''tmp'', ''tmpab12''] = None \<and>
      fs w' [''tmp'', ''tmpab12'', ''creds.json''] = None \<and>
      fs w' [''tmp'', ''tmpab12'', ''pricecatcher.duckdb''] = None \<and>
      fs w' [''tmp''] = Some Dir \<and>
      connection m' = Some \<lparr>engine_state = 3, closed = True\<rparr> \<and>
      trace w' = [Duckdb_close])"
proof -
  have h1: "wf_fs (fs demo_files)"
    by (auto simp: wf_fs_def demo_files_def split: if_splits)
  have h2: "\<forall>c. fs demo_files (temp_dir (connected demo_manager 3)) \<noteq> Some (File c)"
    by (simp add: demo_files_def demo_defs)
  from cleanup_leaves_nothing [OF h1 h2, of demo_env] obtain m' w' where
    r: "cleanup demo_env (connected demo_manager 3) demo_files = (Inr (), m', w')"
      "\<forall>q. prefix (temp_dir (connected demo_manager 3)) q \<longrightarrow> fs w' q = None"
      "\<forall>q. \<not> prefix (temp_dir (connected demo_manager 3)) q \<longrightarrow> fs w' q = fs demo_files q"
      "connection m' = map_option (\<lambda>c. c\<lparr>closed := True\<rparr>) (connection (connected demo_manager 3))"
      "trace w' = trace demo_files @
         (if connection (connected demo_manager 3) = None then [] else [Duckdb_close])"
    by blast
  have t: "temp_dir (connected demo_manager 3) = [''tmp'', ''tmpab12'']"
    by (simp add: demo_defs)
  from r(2) t have a: "fs w' [''tmp'', ''tmpab12''] = None"
    "fs w' [''tmp'', ''tmpab12'', ''creds.json''] = None"
    "fs w' [''tmp'', ''tmpab12'', ''pricecatcher.duckdb''] = None"
    by simp_all
  from r(3) t have b: "fs w' [''tmp''] = Some Dir"
    by (simp add: demo_files_def)
  from r(4,5) have c: "connection m' = Some \<lparr>engine_state = 3, closed = True\<rparr>"
    "trace w' = [Duckdb_close]"
    by (simp_all add: connected_def demo_files_def)
  from h1 h2 r(1) a b c show ?thesis by blast
qed

end
